theory Spec2Isabelle
  imports Complex_Main
begin

section \<open>Navigation geometry of colregs_core (geometry/bearings.py)\<close>

text \<open>
  The module computes with Python floats and tuples of two floats. It is modelled twice.

  This first section takes the formulas of the module over exact real numbers. It serves
  the identities in which the code performs the same operations on both sides, so that
  whatever rounding does, it does to both sides alike, and the closest point of approach,
  whose code is not among the source files. The second section models binary64
  arithmetic itself, with its rounding, infinities, signed zeros and NaN, and serves every
  property that depends on them.

  A position or a velocity is a pair \<open>(x, y)\<close>; \<open>p[0]\<close> is \<open>fst p\<close> and \<open>p[1]\<close> is \<open>snd p\<close>.
\<close>

type_synonym vec2 = "real \<times> real"

subsection \<open>The numeric primitives the module calls\<close>

text \<open>
  Python's \<open>a % b\<close> on floats takes the sign of the divisor: \<open>a - b * floor (a / b)\<close>.
  The module only ever divides by the literal 360.
\<close>

definition py_mod :: "real \<Rightarrow> real \<Rightarrow> real" where
  "py_mod a b = a - b * of_int \<lfloor>a / b\<rfloor>"

text \<open>\<open>np.degrees\<close> and \<open>np.radians\<close>.\<close>

definition degrees :: "real \<Rightarrow> real" where
  "degrees x = x * 180 / pi"

definition radians :: "real \<Rightarrow> real" where
  "radians x = x * pi / 180"

text \<open>
  \<open>np.arctan2 y x\<close>: the angle of the point \<open>(x, y)\<close> in \<open>(-pi, pi]\<close>, with the value 0
  at the origin.
\<close>

definition arctan2 :: "real \<Rightarrow> real \<Rightarrow> real" where
  "arctan2 y x =
     (if 0 < x then arctan (y / x)
      else if x < 0 then (if 0 \<le> y then arctan (y / x) + pi else arctan (y / x) - pi)
      else if 0 < y then pi / 2
      else if y < 0 then - (pi / 2)
      else 0)"

subsection \<open>The functions of the module\<close>

definition normalize_angle_360 :: "real \<Rightarrow> real" where
  "normalize_angle_360 angle = py_mod angle 360"

definition calculate_relative_bearing :: "vec2 \<Rightarrow> real \<Rightarrow> vec2 \<Rightarrow> real" where
  "calculate_relative_bearing os_position os_heading ts_position =
     (let dx = fst ts_position - fst os_position;
          dy = snd ts_position - snd os_position;
          absolute_bearing = degrees (arctan2 dx dy);
          relative_bearing = absolute_bearing - os_heading
      in normalize_angle_360 relative_bearing)"

definition calculate_distance :: "vec2 \<Rightarrow> vec2 \<Rightarrow> real" where
  "calculate_distance pos1 pos2 =
     (let dx = fst pos2 - fst pos1;
          dy = snd pos2 - snd pos1
      in sqrt (dx\<^sup>2 + dy\<^sup>2))"

definition heading_to_velocity :: "real \<Rightarrow> real \<Rightarrow> vec2" where
  "heading_to_velocity heading speed =
     (let heading_rad = radians heading;
          vx = speed * sin heading_rad;
          vy = speed * cos heading_rad
      in (vx, vy))"

definition calculate_aspect_angle :: "real \<Rightarrow> vec2 \<Rightarrow> vec2 \<Rightarrow> real" where
  "calculate_aspect_angle ts_heading os_position ts_position =
     (let dx = fst os_position - fst ts_position;
          dy = snd os_position - snd ts_position;
          absolute_bearing = degrees (arctan2 dx dy);
          aspect = absolute_bearing - ts_heading
      in normalize_angle_360 aspect)"

text \<open>
  The errors a call can end with. Python's float division raises \<open>ZeroDivisionError\<close>
  on a zero divisor and its float power raises \<open>OverflowError\<close> when the result leaves
  the binary64 range; \<open>InvalidInput\<close> is the error the specification asks for on
  malformed input.
\<close>

datatype error = ZeroDivisionError | OverflowError | InvalidInput



subsection \<open>Closest point of approach\<close>

text \<open>
  Modelled from the spec: \<open>calculate_cpa_tcpa\<close> (the spec's \<open>cpaTcpa\<close>) is imported by the
  tests from \<open>colregs_core\<close>, but its module is not among the source files. The definition
  follows section 4.2 of the specification word for word: \<open>r = tsPos - osPos\<close>,
  \<open>v = tsVel - osVel\<close>; if \<open>|v|\<^sup>2 < \<epsilon>\<close> then \<open>tcpa = +\<infinity>\<close> and \<open>dcpa = |r|\<close>, else
  \<open>tcpa = -(r \<sqdot> v) / |v|\<^sup>2\<close> and \<open>dcpa = |r + v * tcpa|\<close>. The threshold \<open>\<epsilon>\<close>, which the
  specification does not fix, is a parameter. A time is a real number or \<open>+\<infinity>\<close>.
\<close>

datatype time = Finite real | PosInf

definition cpaTcpa :: "real \<Rightarrow> vec2 \<Rightarrow> vec2 \<Rightarrow> vec2 \<Rightarrow> vec2 \<Rightarrow> real \<times> time" where
  "cpaTcpa eps osPos osVel tsPos tsVel =
     (let rx = fst tsPos - fst osPos;
          ry = snd tsPos - snd osPos;
          vx = fst tsVel - fst osVel;
          vy = snd tsVel - snd osVel;
          v_sq = vx\<^sup>2 + vy\<^sup>2
      in if v_sq < eps then (sqrt (rx\<^sup>2 + ry\<^sup>2), PosInf)
         else
           (let tcpa = - (rx * vx + ry * vy) / v_sq
            in (sqrt ((rx + vx * tcpa)\<^sup>2 + (ry + vy * tcpa)\<^sup>2), Finite tcpa)))"

section \<open>The module in binary64 arithmetic\<close>

text \<open>
  The definitions above compute with exact reals. That is enough for identities in which
  the code performs the same operations on both sides, and it is not enough wherever
  rounding, overflow, signed zeros or NaN decide the result. This section models the
  arithmetic the interpreter really performs: IEEE-754 binary64 with round to nearest,
  ties to even.

  A float is a finite real (\<open>Fl x\<close>, with \<open>Fl 0\<close> the positive zero), the negative zero,
  an infinity or NaN. The arguments of a call are Python floats, as the type hints of the
  module say.
\<close>

datatype b64 = Fl real | MinusZero | PlusInfinity | MinusInfinity | NaN

subsection \<open>Rounding\<close>

text \<open>
  \<open>binade n x\<close> is the exponent \<open>k\<close> with \<open>2 ^ k \<le> x < 2 ^ (k + 1)\<close>, found by halving or
  doubling at most \<open>n\<close> times; 2200 steps cover every quotient and product of two finite
  binary64 numbers. \<open>round_b64\<close> rounds a real to 53 significant bits (fewer below
  \<open>2 ^ - 1022\<close>, where the numbers are subnormal); \<open>fl\<close> returns the float an operation
  with the exact non-zero result \<open>x\<close> delivers: an infinity when the rounded value reaches
  \<open>2 ^ 1024\<close>, a zero with the sign of \<open>x\<close> when it underflows.
\<close>

fun binade :: "nat \<Rightarrow> real \<Rightarrow> int" where
  "binade 0 x = 0"
| "binade (Suc n) x =
     (if 2 \<le> x then binade n (x / 2) + 1 else if x < 1 then binade n (x * 2) - 1 else 0)"

definition pow2 :: "int \<Rightarrow> real" where
  "pow2 e = (if 0 \<le> e then 2 ^ nat e else 1 / 2 ^ nat (- e))"

definition round_half_even :: "real \<Rightarrow> int" where
  "round_half_even x =
     (let f = \<lfloor>x\<rfloor>; d = x - of_int f
      in if d < 1 / 2 then f else if 1 / 2 < d then f + 1 else if even f then f else f + 1)"

definition ulp_exponent :: "real \<Rightarrow> int" where
  "ulp_exponent x = max (binade 2200 \<bar>x\<bar>) (- 1022) - 52"

definition round_b64 :: "real \<Rightarrow> real" where
  "round_b64 x = of_int (round_half_even (x / pow2 (ulp_exponent x))) * pow2 (ulp_exponent x)"

definition fl :: "real \<Rightarrow> b64" where
  "fl x =
     (let r = round_b64 x
      in if pow2 1024 \<le> \<bar>r\<bar> then (if 0 < x then PlusInfinity else MinusInfinity)
         else if r = 0 then (if x < 0 then MinusZero else Fl 0)
         else Fl r)"

subsection \<open>Arithmetic\<close>

definition val :: "b64 \<Rightarrow> real" where
  "val a = (case a of Fl x \<Rightarrow> x | _ \<Rightarrow> 0)"

definition is_zero :: "b64 \<Rightarrow> bool" where
  "is_zero a = (case a of Fl x \<Rightarrow> x = 0 | MinusZero \<Rightarrow> True | _ \<Rightarrow> False)"

definition is_inf :: "b64 \<Rightarrow> bool" where
  "is_inf a = (case a of PlusInfinity \<Rightarrow> True | MinusInfinity \<Rightarrow> True | _ \<Rightarrow> False)"

definition is_finite :: "b64 \<Rightarrow> bool" where
  "is_finite a = (case a of Fl x \<Rightarrow> True | MinusZero \<Rightarrow> True | _ \<Rightarrow> False)"

definition sign_neg :: "b64 \<Rightarrow> bool" where
  "sign_neg a =
     (case a of Fl x \<Rightarrow> x < 0 | MinusZero \<Rightarrow> True | MinusInfinity \<Rightarrow> True | _ \<Rightarrow> False)"

definition signed_zero :: "bool \<Rightarrow> b64" where
  "signed_zero neg = (if neg then MinusZero else Fl 0)"

definition signed_inf :: "bool \<Rightarrow> b64" where
  "signed_inf neg = (if neg then MinusInfinity else PlusInfinity)"

definition b64_neg :: "b64 \<Rightarrow> b64" where
  "b64_neg a =
     (case a of
        Fl x \<Rightarrow> (if x = 0 then MinusZero else Fl (- x))
      | MinusZero \<Rightarrow> Fl 0
      | PlusInfinity \<Rightarrow> MinusInfinity
      | MinusInfinity \<Rightarrow> PlusInfinity
      | NaN \<Rightarrow> NaN)"

text \<open>
  Addition: an exact sum of zero is the positive zero, unless both operands are the
  negative zero. Subtraction is the addition of the negated operand.
\<close>

definition b64_add :: "b64 \<Rightarrow> b64 \<Rightarrow> b64" where
  "b64_add a b =
     (if a = NaN \<or> b = NaN then NaN
      else if a = PlusInfinity then (if b = MinusInfinity then NaN else PlusInfinity)
      else if a = MinusInfinity then (if b = PlusInfinity then NaN else MinusInfinity)
      else if is_inf b then b
      else if val a + val b = 0
        then (if a = MinusZero \<and> b = MinusZero then MinusZero else Fl 0)
      else fl (val a + val b))"

definition b64_sub :: "b64 \<Rightarrow> b64 \<Rightarrow> b64" where
  "b64_sub a b = b64_add a (b64_neg b)"

definition b64_mul :: "b64 \<Rightarrow> b64 \<Rightarrow> b64" where
  "b64_mul a b =
     (if a = NaN \<or> b = NaN then NaN
      else if is_inf a \<or> is_inf b
        then (if is_zero a \<or> is_zero b then NaN else signed_inf (sign_neg a \<noteq> sign_neg b))
      else if val a * val b = 0 then signed_zero (sign_neg a \<noteq> sign_neg b)
      else fl (val a * val b))"

definition b64_div :: "b64 \<Rightarrow> b64 \<Rightarrow> b64" where
  "b64_div a b =
     (if a = NaN \<or> b = NaN then NaN
      else if is_inf a then (if is_inf b then NaN else signed_inf (sign_neg a \<noteq> sign_neg b))
      else if is_inf b then signed_zero (sign_neg a \<noteq> sign_neg b)
      else if is_zero b
        then (if is_zero a then NaN else signed_inf (sign_neg a \<noteq> sign_neg b))
      else if val a = 0 then signed_zero (sign_neg a \<noteq> sign_neg b)
      else fl (val a / val b))"

text \<open>A comparison with NaN is false.\<close>

definition b64_lt :: "b64 \<Rightarrow> b64 \<Rightarrow> bool" where
  "b64_lt a b =
     (if a = NaN \<or> b = NaN then False
      else if a = PlusInfinity \<or> b = MinusInfinity then False
      else if a = MinusInfinity \<or> b = PlusInfinity then True
      else val a < val b)"

text \<open>
  The functions of the C library that the interpreter and numpy call are not correctly
  rounded on every platform (\<open>x ** 2\<close>, which is \<open>pow(x, 2.0)\<close>, can differ from the rounded
  square in the last bit), so they are parameters of the model: \<open>lib_pow x\<close> is what
  \<open>pow(x, 2.0)\<close> returns for a finite \<open>x > 0\<close>, \<open>lib_sin\<close> and \<open>lib_cos\<close> are
  \<open>sin\<close> and \<open>cos\<close> at such an \<open>x\<close>, and \<open>lib_arctan2 y x\<close> is \<open>atan2\<close> at finite arguments
  that are not zero. Their values at zeros, infinities and NaN are fixed by the C
  standard and are part of the definitions below. \<open>correctly_rounded\<close> is the platform on
  which each of them is the rounded exact function; it serves to evaluate calls at
  inputs where the exact result is a binary64 number or overflows.
\<close>

record libm =
  lib_pow :: "real \<Rightarrow> b64"
  lib_sin :: "real \<Rightarrow> b64"
  lib_cos :: "real \<Rightarrow> b64"
  lib_arctan2 :: "real \<Rightarrow> real \<Rightarrow> b64"

definition correctly_rounded :: libm where
  "correctly_rounded =
     \<lparr>lib_pow = (\<lambda>x. fl (x * x)),
      lib_sin = (\<lambda>x. fl (sin x)),
      lib_cos = (\<lambda>x. fl (cos x)),
      lib_arctan2 = (\<lambda>y x. fl (arctan2 y x))\<rparr>"

text \<open>
  Python's \<open>x ** 2\<close> and \<open>x / y\<close> on floats are the operations of the module that can
  raise. The interpreter settles a base that is NaN, infinite, zero or \<open>\<plusminus>1\<close> itself and
  calls \<open>pow\<close> on the magnitude of any other base; it raises \<open>OverflowError\<close> when the
  result is infinite, and returns a result that underflows. The division raises
  \<open>ZeroDivisionError\<close> on a divisor that is a zero of either sign.
\<close>

definition py_pow2 :: "libm \<Rightarrow> b64 \<Rightarrow> error + b64" where
  "py_pow2 L a =
     (if a = NaN then Inr NaN
      else if is_inf a then Inr PlusInfinity
      else if is_zero a then Inr (Fl 0)
      else if \<bar>val a\<bar> = 1 then Inr (Fl 1)
      else if is_inf (lib_pow L \<bar>val a\<bar>) then Inl OverflowError
      else Inr (lib_pow L \<bar>val a\<bar>))"

definition py_truediv :: "b64 \<Rightarrow> b64 \<Rightarrow> error + b64" where
  "py_truediv a b = (if is_zero b then Inl ZeroDivisionError else Inr (b64_div a b))"

text \<open>
  \<open>x % 360\<close>, for Python floats and numpy floats alike: the C function \<open>fmod\<close>, whose result
  is exact and has the sign of \<open>x\<close>; a negative remainder is then increased by 360, and that
  addition rounds; a remainder of zero becomes the positive zero.
\<close>

definition trunc :: "real \<Rightarrow> int" where
  "trunc q = (if 0 \<le> q then \<lfloor>q\<rfloor> else \<lceil>q\<rceil>)"

definition b64_mod_360 :: "b64 \<Rightarrow> b64" where
  "b64_mod_360 a =
     (if is_finite a
      then (let m = val a - 360 * of_int (trunc (val a / 360))
            in if m = 0 then Fl 0 else if m < 0 then fl (m + 360) else Fl m)
      else NaN)"

subsection \<open>The numpy functions\<close>

text \<open>
  The numpy functions never raise. \<open>np.degrees\<close> and \<open>np.radians\<close> multiply by the binary64
  constants \<open>180 / pi\<close> and \<open>pi / 180\<close>; \<open>np.sqrt\<close> is correctly rounded, as IEEE-754 requires.
  \<open>np.sin\<close>, \<open>np.cos\<close> and \<open>np.arctan2\<close> are the functions of the platform, with the special
  values of the C standard: at the axes and at the infinities \<open>np.arctan2\<close> returns the
  binary64 values of \<open>pi\<close>, \<open>pi / 2\<close>, \<open>pi / 4\<close> and \<open>3 pi / 4\<close>.
\<close>

definition b64_pi :: real where
  "b64_pi = 884279719003555 / 2 ^ 48"

definition b64_rad2deg :: real where
  "b64_rad2deg = 1007958012753983 / 2 ^ 44"

definition b64_deg2rad :: real where
  "b64_deg2rad = 5030569068109113 / 2 ^ 58"

definition np_degrees :: "b64 \<Rightarrow> b64" where
  "np_degrees a = b64_mul a (Fl b64_rad2deg)"

definition np_radians :: "b64 \<Rightarrow> b64" where
  "np_radians a = b64_mul a (Fl b64_deg2rad)"

definition np_sqrt :: "b64 \<Rightarrow> b64" where
  "np_sqrt a =
     (case a of
        Fl x \<Rightarrow> (if x < 0 then NaN else if x = 0 then Fl 0 else fl (sqrt x))
      | MinusZero \<Rightarrow> MinusZero
      | PlusInfinity \<Rightarrow> PlusInfinity
      | MinusInfinity \<Rightarrow> NaN
      | NaN \<Rightarrow> NaN)"

definition np_sin :: "libm \<Rightarrow> b64 \<Rightarrow> b64" where
  "np_sin L a =
     (case a of
        Fl x \<Rightarrow> (if x = 0 then Fl 0 else lib_sin L x)
      | MinusZero \<Rightarrow> MinusZero
      | _ \<Rightarrow> NaN)"

definition np_cos :: "libm \<Rightarrow> b64 \<Rightarrow> b64" where
  "np_cos L a =
     (case a of
        Fl x \<Rightarrow> (if x = 0 then Fl 1 else lib_cos L x)
      | MinusZero \<Rightarrow> Fl 1
      | _ \<Rightarrow> NaN)"

definition with_sign :: "bool \<Rightarrow> real \<Rightarrow> b64" where
  "with_sign neg x = (if neg then Fl (- x) else Fl x)"

definition np_arctan2 :: "libm \<Rightarrow> b64 \<Rightarrow> b64 \<Rightarrow> b64" where
  "np_arctan2 L y x =
     (if y = NaN \<or> x = NaN then NaN
      else if is_zero y
        then (if sign_neg x then with_sign (sign_neg y) b64_pi else signed_zero (sign_neg y))
      else if is_zero x then with_sign (sign_neg y) (b64_pi / 2)
      else if is_inf y
        then (if x = PlusInfinity then with_sign (sign_neg y) (b64_pi / 4)
              else if x = MinusInfinity then with_sign (sign_neg y) (3 * b64_pi / 4)
              else with_sign (sign_neg y) (b64_pi / 2))
      else if x = PlusInfinity then signed_zero (sign_neg y)
      else if x = MinusInfinity then with_sign (sign_neg y) b64_pi
      else lib_arctan2 L (val y) (val x))"

subsection \<open>The functions of the module in binary64\<close>

text \<open>
  Each function is the source line by line, with the operations above; \<open>L\<close> is the
  platform. A function whose body contains \<open>**\<close> or \<open>/\<close> on Python floats returns an
  outcome, \<open>Inl\<close> the exception raised.
  The literal \<open>1e-6\<close> is the binary64 number \<open>4722366482869645 / 2 ^ 72\<close>.
\<close>

type_synonym fvec2 = "b64 \<times> b64"

definition normalize_angle_b64 :: "b64 \<Rightarrow> b64" where
  "normalize_angle_b64 angle = b64_sub (b64_mod_360 (b64_add angle (Fl 180))) (Fl 180)"

definition normalize_angle_360_b64 :: "b64 \<Rightarrow> b64" where
  "normalize_angle_360_b64 angle = b64_mod_360 angle"

definition calculate_relative_bearing_b64 :: "libm \<Rightarrow> fvec2 \<Rightarrow> b64 \<Rightarrow> fvec2 \<Rightarrow> b64" where
  "calculate_relative_bearing_b64 L os_position os_heading ts_position =
     (let dx = b64_sub (fst ts_position) (fst os_position);
          dy = b64_sub (snd ts_position) (snd os_position);
          absolute_bearing = np_degrees (np_arctan2 L dx dy);
          relative_bearing = b64_sub absolute_bearing os_heading
      in normalize_angle_360_b64 relative_bearing)"

definition calculate_distance_b64 :: "libm \<Rightarrow> fvec2 \<Rightarrow> fvec2 \<Rightarrow> error + b64" where
  "calculate_distance_b64 L pos1 pos2 =
     (let dx = b64_sub (fst pos2) (fst pos1);
          dy = b64_sub (snd pos2) (snd pos1)
      in case py_pow2 L dx of
           Inl e \<Rightarrow> Inl e
         | Inr dx2 \<Rightarrow>
             (case py_pow2 L dy of
                Inl e \<Rightarrow> Inl e
              | Inr dy2 \<Rightarrow> Inr (np_sqrt (b64_add dx2 dy2))))"

definition heading_to_velocity_b64 :: "libm \<Rightarrow> b64 \<Rightarrow> b64 \<Rightarrow> fvec2" where
  "heading_to_velocity_b64 L heading speed =
     (let heading_rad = np_radians heading;
          vx = b64_mul speed (np_sin L heading_rad);
          vy = b64_mul speed (np_cos L heading_rad)
      in (vx, vy))"

definition velocity_to_heading_speed_b64 :: "libm \<Rightarrow> fvec2 \<Rightarrow> error + b64 \<times> b64" where
  "velocity_to_heading_speed_b64 L velocity =
     (let vx = fst velocity;
          vy = snd velocity
      in case py_pow2 L vx of
           Inl e \<Rightarrow> Inl e
         | Inr vx2 \<Rightarrow>
             (case py_pow2 L vy of
                Inl e \<Rightarrow> Inl e
              | Inr vy2 \<Rightarrow>
                  (let speed = np_sqrt (b64_add vx2 vy2);
                       heading = np_degrees (np_arctan2 L vx vy)
                   in Inr (normalize_angle_360_b64 heading, speed))))"


definition b64_1e_minus_6 :: real where
  "b64_1e_minus_6 = 4722366482869645 / 2 ^ 72"

definition calculate_bearing_rate_b64 ::
  "libm \<Rightarrow> fvec2 \<Rightarrow> fvec2 \<Rightarrow> fvec2 \<Rightarrow> fvec2 \<Rightarrow> error + b64" where
  "calculate_bearing_rate_b64 L os_position os_velocity ts_position ts_velocity =
     (let dx = b64_sub (fst ts_position) (fst os_position);
          dy = b64_sub (snd ts_position) (snd os_position)
      in case py_pow2 L dx of
           Inl e \<Rightarrow> Inl e
         | Inr dx2 \<Rightarrow>
             (case py_pow2 L dy of
                Inl e \<Rightarrow> Inl e
              | Inr dy2 \<Rightarrow>
                  (let range_sq = b64_add dx2 dy2
                   in if b64_lt range_sq (Fl b64_1e_minus_6) then Inr (Fl 0)
                      else
                        (let dvx = b64_sub (fst ts_velocity) (fst os_velocity);
                             dvy = b64_sub (snd ts_velocity) (snd os_velocity);
                             cross_product = b64_sub (b64_mul dx dvy) (b64_mul dy dvx)
                         in case py_truediv cross_product range_sq of
                              Inl e \<Rightarrow> Inl e
                            | Inr bearing_rate_rad \<Rightarrow> Inr (np_degrees bearing_rate_rad)))))"

text \<open>The binary64 number that the literal \<open>1e-20\<close> denotes.\<close>

definition b64_1e_minus_20 :: real where
  "b64_1e_minus_20 = 6646139978924579 / 2 ^ 119"

text \<open>A finite binary64 number is smaller than \<open>2 ^ 1024\<close> in magnitude.\<close>

definition b64_in_range :: "b64 \<Rightarrow> bool" where
  "b64_in_range a = (is_finite a \<and> \<bar>val a\<bar> < pow2 1024)"

section \<open>Facts about the binary64 model\<close>

subsection \<open>Evaluating the rounding\<close>

lemma pow2_pos: "0 < pow2 k"
  by (simp add: pow2_def)

lemma pow2_Suc: "pow2 (k + 1) = 2 * pow2 k"
proof (cases "0 \<le> k")
  case True
  then have "nat (k + 1) = Suc (nat k)" by simp
  then show ?thesis using True by (simp add: pow2_def)
next
  case False
  then have "nat (- k) = Suc (nat (- (k + 1)))" by simp
  then show ?thesis using False by (simp add: pow2_def)
qed

lemma pow2_ge_1: "0 \<le> k \<Longrightarrow> 1 \<le> pow2 k"
  by (simp add: pow2_def)

lemma pow2_le_1: "k \<le> 0 \<Longrightarrow> pow2 k \<le> 1"
proof -
  assume "k \<le> 0"
  have "(1::real) \<le> 2 ^ nat (- k)" by simp
  then have "1 / 2 ^ nat (- k) \<le> (1::real)" by (simp add: field_simps)
  then show ?thesis using \<open>k \<le> 0\<close> by (simp add: pow2_def)
qed

lemma binade_unique:
  "pow2 k \<le> x \<Longrightarrow> x < pow2 (k + 1) \<Longrightarrow> nat \<bar>k\<bar> \<le> n \<Longrightarrow> binade n x = k"
proof (induction n arbitrary: x k)
  case 0
  then show ?case by simp
next
  case (Suc n)
  show ?case
  proof (cases "2 \<le> x")
    case True
    have "1 \<le> k"
    proof (rule ccontr)
      assume "\<not> 1 \<le> k"
      then have "k \<le> 0" by simp
      then have "pow2 (k + 1) \<le> 2" using pow2_le_1 [of k] by (simp add: pow2_Suc)
      with Suc.prems(2) True show False by simp
    qed
    have a: "pow2 (k - 1) \<le> x / 2" using Suc.prems(1) pow2_Suc [of "k - 1"] by simp
    have b: "x / 2 < pow2 (k - 1 + 1)" using Suc.prems(2) pow2_Suc [of k] by simp
    have c: "nat \<bar>k - 1\<bar> \<le> n" using Suc.prems(3) \<open>1 \<le> k\<close> by simp
    have "binade n (x / 2) = k - 1" using a b c by (rule Suc.IH)
    then show ?thesis using True by simp
  next
    case False
    show ?thesis
    proof (cases "x < 1")
      case True
      have "k \<le> - 1"
      proof (rule ccontr)
        assume "\<not> k \<le> - 1"
        then have "0 \<le> k" by simp
        then have "1 \<le> pow2 k" by (rule pow2_ge_1)
        with Suc.prems(1) True show False by simp
      qed
      have a: "pow2 (k + 1) \<le> x * 2" using Suc.prems(1) pow2_Suc [of k] by simp
      have b: "x * 2 < pow2 (k + 1 + 1)" using Suc.prems(2) pow2_Suc [of "k + 1"] by simp
      have c: "nat \<bar>k + 1\<bar> \<le> n" using Suc.prems(3) \<open>k \<le> - 1\<close> by simp
      have "binade n (x * 2) = k + 1" using a b c by (rule Suc.IH)
      then show ?thesis using True False by simp
    next
      case x1: False
      have "k < 1"
      proof (rule ccontr)
        assume "\<not> k < 1"
        then have "0 \<le> k - 1" by simp
        then have "1 \<le> pow2 (k - 1)" by (rule pow2_ge_1)
        then have "2 \<le> pow2 k" using pow2_Suc [of "k - 1"] by simp
        with Suc.prems(1) False show False by simp
      qed
      moreover have "- 1 < k"
      proof (rule ccontr)
        assume "\<not> - 1 < k"
        then have "k + 1 \<le> 0" by simp
        then have "pow2 (k + 1) \<le> 1" by (rule pow2_le_1)
        with Suc.prems(2) x1 show False by simp
      qed
      ultimately have "k = 0" by simp
      then show ?thesis using False x1 by simp
    qed
  qed
qed

text \<open>
  The float for an exact result \<open>x\<close> in the binade \<open>k\<close>: round \<open>x\<close> to a multiple of
  \<open>2 ^ e\<close>, where \<open>e = max k (- 1022) - 52\<close>.
\<close>

lemma round_b64_at:
  assumes "pow2 k \<le> \<bar>x\<bar>" and "\<bar>x\<bar> < pow2 (k + 1)" and "nat \<bar>k\<bar> \<le> 2200"
    and "e = max k (- 1022) - 52"
  shows "round_b64 x = of_int (round_half_even (x / pow2 e)) * pow2 e"
proof -
  have "binade 2200 \<bar>x\<bar> = k" using assms(1-3) by (rule binade_unique)
  then show ?thesis by (simp add: round_b64_def ulp_exponent_def assms(4))
qed

lemma fl_at:
  assumes "pow2 k \<le> \<bar>x\<bar>" and "\<bar>x\<bar> < pow2 (k + 1)" and "nat \<bar>k\<bar> \<le> 2200"
    and "e = max k (- 1022) - 52"
    and "of_int (round_half_even (x / pow2 e)) * pow2 e = r"
    and "r \<noteq> 0" and "\<bar>r\<bar> < pow2 1024"
  shows "fl x = Fl r"
proof -
  have "round_b64 x = r" using round_b64_at [OF assms(1-4)] assms(5) by simp
  then show ?thesis using assms(6,7) by (simp add: fl_def)
qed

lemma fl_overflow:
  assumes "pow2 k \<le> \<bar>x\<bar>" and "\<bar>x\<bar> < pow2 (k + 1)" and "nat \<bar>k\<bar> \<le> 2200"
    and "e = max k (- 1022) - 52"
    and "of_int (round_half_even (x / pow2 e)) * pow2 e = r"
    and "pow2 1024 \<le> \<bar>r\<bar>" and "0 < x"
  shows "fl x = PlusInfinity"
proof -
  have "round_b64 x = r" using round_b64_at [OF assms(1-4)] assms(5) by simp
  then show ?thesis using assms(6,7) by (simp add: fl_def)
qed

lemma pow2_mono: "j \<le> k \<Longrightarrow> pow2 j \<le> pow2 k"
proof -
  assume "j \<le> k"
  then obtain n where k: "k = j + int n" using zle_iff_zadd by blast
  have "pow2 j \<le> pow2 (j + int n)"
  proof (induction n)
    case 0
    then show ?case by simp
  next
    case (Suc n)
    have "j + int (Suc n) = j + int n + 1" by simp
    then have "pow2 (j + int (Suc n)) = 2 * pow2 (j + int n)"
      by (simp only: pow2_Suc)
    then show ?case using Suc pow2_pos [of "j + int n"] by simp
  qed
  then show ?thesis by (simp add: k)
qed

lemma binade_upper: "x < pow2 (k + 1) \<Longrightarrow> 0 \<le> k \<Longrightarrow> binade n x \<le> k"
proof (induction n arbitrary: x k)
  case 0
  then show ?case by simp
next
  case (Suc n)
  show ?case
  proof (cases "2 \<le> x")
    case True
    have "1 \<le> k"
    proof (rule ccontr)
      assume "\<not> 1 \<le> k"
      then have "k = 0" using Suc.prems(2) by simp
      then have "pow2 (k + 1) = 2" by (simp add: pow2_def)
      with Suc.prems(1) True show False by simp
    qed
    have "x / 2 < pow2 (k - 1 + 1)" using Suc.prems(1) pow2_Suc [of k] by simp
    then have "binade n (x / 2) \<le> k - 1" using \<open>1 \<le> k\<close> by (intro Suc.IH) simp_all
    then show ?thesis using True by simp
  next
    case False
    show ?thesis
    proof (cases "x < 1")
      case True
      have "2 \<le> pow2 (k + 1)" using pow2_ge_1 [OF Suc.prems(2)] by (simp add: pow2_Suc)
      then have "x * 2 < pow2 (k + 1)" using True by simp
      then have "binade n (x * 2) \<le> k" using Suc.prems(2) by (rule Suc.IH)
      then show ?thesis using True False by simp
    next
      case x1: False
      then show ?thesis using False Suc.prems(2) by simp
    qed
  qed
qed

lemma round_half_even_near: "\<bar>of_int (round_half_even x) - x\<bar> \<le> 1 / 2"
proof -
  have "of_int \<lfloor>x\<rfloor> \<le> x" "x < of_int \<lfloor>x\<rfloor> + 1" by linarith+
  then show ?thesis
    unfolding round_half_even_def Let_def by (auto simp: abs_le_iff)
qed

lemma round_half_even_minus: "round_half_even (- x) = - round_half_even x"
proof (cases "x = of_int \<lfloor>x\<rfloor>")
  case True
  then have "\<lfloor>- x\<rfloor> = - \<lfloor>x\<rfloor>" by (metis floor_of_int of_int_minus)
  then show ?thesis using True by (simp add: round_half_even_def Let_def)
next
  case False
  have b: "of_int \<lfloor>x\<rfloor> < x" "x < of_int \<lfloor>x\<rfloor> + 1" using False by linarith+
  have f: "\<lfloor>- x\<rfloor> = - \<lfloor>x\<rfloor> - 1" using b by linarith
  have e: "even (- \<lfloor>x\<rfloor> - 1) = odd \<lfloor>x\<rfloor>" by simp
  show ?thesis
    using b unfolding round_half_even_def Let_def f e by auto
qed

lemma round_b64_minus: "round_b64 (- x) = - round_b64 x"
  by (simp add: round_b64_def ulp_exponent_def round_half_even_minus)

lemma fl_minus: "x \<noteq> 0 \<Longrightarrow> fl (- x) = b64_neg (fl x)"
  by (simp add: fl_def round_b64_minus Let_def b64_neg_def)

lemma round_b64_near: "\<bar>round_b64 x - x\<bar> \<le> pow2 (ulp_exponent x) / 2"
proof -
  define u where "u = pow2 (ulp_exponent x)"
  have u: "0 < u" by (simp add: u_def pow2_pos)
  have "\<bar>of_int (round_half_even (x / u)) - x / u\<bar> \<le> 1 / 2" by (rule round_half_even_near)
  then have "\<bar>of_int (round_half_even (x / u)) - x / u\<bar> * u \<le> 1 / 2 * u"
    using u by (intro mult_right_mono) simp_all
  moreover have "\<bar>of_int (round_half_even (x / u)) - x / u\<bar> * u
      = \<bar>of_int (round_half_even (x / u)) * u - x\<bar>"
  proof -
    have "\<bar>of_int (round_half_even (x / u)) - x / u\<bar> * u
        = \<bar>(of_int (round_half_even (x / u)) - x / u) * u\<bar>"
      using u by (simp only: abs_mult abs_of_pos)
    also have "(of_int (round_half_even (x / u)) - x / u) * u
        = of_int (round_half_even (x / u)) * u - x"
      using u by (simp add: left_diff_distrib)
    finally show ?thesis .
  qed
  ultimately show ?thesis by (simp add: round_b64_def u_def)
qed

lemma fl_finite:
  assumes "\<bar>x\<bar> < pow2 (k + 1)" and "0 \<le> k" and "k \<le> 1022"
  shows "is_finite (fl x)"
proof -
  have "binade 2200 \<bar>x\<bar> \<le> k" using assms(1,2) by (rule binade_upper)
  then have "ulp_exponent x \<le> k" using assms(2) by (simp add: ulp_exponent_def)
  then have "pow2 (ulp_exponent x) \<le> pow2 k" by (rule pow2_mono)
  then have "\<bar>round_b64 x - x\<bar> \<le> pow2 k"
    using round_b64_near [of x] pow2_pos [of "ulp_exponent x"] by simp
  then have "\<bar>round_b64 x\<bar> < pow2 (k + 1) + pow2 k" using assms(1) by simp
  also have "\<dots> \<le> pow2 (k + 1 + 1)" using pow2_pos [of k] by (simp only: pow2_Suc)
  also have "\<dots> \<le> pow2 1024" using assms(3) by (intro pow2_mono) simp
  finally have "\<not> pow2 1024 \<le> \<bar>round_b64 x\<bar>" by simp
  then show ?thesis by (simp add: fl_def Let_def is_finite_def)
qed

lemma b64_mul_zero_finite: "is_finite y \<Longrightarrow> is_zero (b64_mul (Fl 0) y)"
  by (cases y) (simp_all add: is_finite_def b64_mul_def is_inf_def val_def is_zero_def signed_zero_def)

lemma lib_sin_correctly_rounded_finite: "is_finite (lib_sin correctly_rounded x)"
proof -
  have "\<bar>sin x\<bar> < 2" using abs_sin_le_one [of x] by linarith
  then have "\<bar>sin x\<bar> < pow2 (0 + 1)" by (simp add: pow2_def)
  then have "is_finite (fl (sin x))" by (rule fl_finite) simp_all
  then show ?thesis by (simp add: correctly_rounded_def)
qed

lemma lib_cos_correctly_rounded_finite: "is_finite (lib_cos correctly_rounded x)"
proof -
  have "\<bar>cos x\<bar> < 2" using abs_cos_le_one [of x] by linarith
  then have "\<bar>cos x\<bar> < pow2 (0 + 1)" by (simp add: pow2_def)
  then have "is_finite (fl (cos x))" by (rule fl_finite) simp_all
  then show ?thesis by (simp add: correctly_rounded_def)
qed

lemma np_sin_finite: "\<forall>x. is_finite (lib_sin L x) \<Longrightarrow> is_finite a \<Longrightarrow> is_finite (np_sin L a)"
  by (cases a) (simp_all add: np_sin_def is_finite_def)

lemma np_cos_finite: "\<forall>x. is_finite (lib_cos L x) \<Longrightarrow> is_finite a \<Longrightarrow> is_finite (np_cos L a)"
  by (cases a) (simp_all add: np_cos_def is_finite_def)

lemma np_radians_finite: "b64_in_range h \<Longrightarrow> is_finite (np_radians h)"
proof (cases h)
  case (Fl x)
  assume "b64_in_range h"
  then have x: "\<bar>x\<bar> < pow2 1024" using Fl by (simp add: b64_in_range_def val_def)
  have c: "0 \<le> b64_deg2rad" "b64_deg2rad \<le> 1 / 32" by (simp_all add: b64_deg2rad_def)
  have "\<bar>x * b64_deg2rad\<bar> = \<bar>x\<bar> * b64_deg2rad" using c by (simp add: abs_mult)
  also have "\<dots> \<le> \<bar>x\<bar> * (1 / 32)" using c by (intro mult_left_mono) simp_all
  also have "\<dots> < pow2 1024 * (1 / 32)" using x by simp
  also have "\<dots> = pow2 (1018 + 1)" by (simp add: pow2_def)
  finally have "is_finite (fl (x * b64_deg2rad))" by (rule fl_finite) simp_all
  then show ?thesis
    using Fl by (simp add: np_radians_def b64_mul_def is_inf_def val_def signed_zero_def is_finite_def)
next
  case MinusZero
  then show ?thesis
    by (simp add: np_radians_def b64_mul_def is_inf_def val_def signed_zero_def is_finite_def)
qed (simp_all add: b64_in_range_def is_finite_def)




subsection \<open>Values at particular inputs\<close>

lemma fl_360_minus_tiny: "fl (- b64_1e_minus_20 + 360) = Fl 360"
  by (rule fl_at [where k = 8 and e = "- 44"])
    (simp_all add: pow2_def b64_1e_minus_20_def round_half_even_def Let_def)

lemma fl_360_minus_half_ulp: "fl (- (1 / 2 ^ 45) + 360) = Fl 360"
  by (rule fl_at [where k = 8 and e = "- 44"])
    (simp_all add: pow2_def round_half_even_def Let_def)

lemma fl_180: "fl 180 = Fl 180"
  by (rule fl_at [where k = 7 and e = "- 45"])
    (simp_all add: pow2_def round_half_even_def Let_def)

lemma fl_360: "fl 360 = Fl 360"
  by (rule fl_at [where k = 8 and e = "- 44"])
    (simp_all add: pow2_def round_half_even_def Let_def)

lemma fl_minus_180: "fl (- 180) = Fl (- 180)"
  by (rule fl_at [where k = 7 and e = "- 45"])
    (simp_all add: pow2_def round_half_even_def Let_def)

lemma fl_minus_half_ulp: "fl (- (1 / 2 ^ 45)) = Fl (- (1 / 2 ^ 45))"
  by (rule fl_at [where k = "- 45" and e = "- 97"])
    (simp_all add: pow2_def round_half_even_def Let_def)

lemma mod_360_minus_1e_minus_20: "b64_mod_360 (Fl (- b64_1e_minus_20)) = Fl 360"
proof -
  have "trunc (- b64_1e_minus_20 / 360) = 0"
    by (simp add: trunc_def b64_1e_minus_20_def ceiling_eq_iff)
  then show ?thesis
    using fl_360_minus_tiny
    by (simp add: b64_mod_360_def is_finite_def val_def Let_def)
      (simp add: b64_1e_minus_20_def)
qed

lemma fl_1: "fl 1 = Fl 1"
  by (rule fl_at [where k = 0 and e = "- 52"])
    (simp_all add: pow2_def round_half_even_def Let_def)


lemma fl_2_512: "fl (2 ^ 512) = Fl (2 ^ 512)"
  by (rule fl_at [where k = 512 and e = 460])
    (simp_all add: pow2_def round_half_even_def Let_def)

lemma fl_2_1024: "fl (2 ^ 512 * 2 ^ 512) = PlusInfinity"
  by (rule fl_overflow [where k = 1024 and e = 972 and r = "2 ^ 1024"])
    (simp_all add: pow2_def round_half_even_def Let_def)



lemma py_pow2_2_512: "py_pow2 correctly_rounded (Fl (2 ^ 512)) = Inl OverflowError"
  using fl_2_1024 by (simp add: py_pow2_def correctly_rounded_def is_inf_def is_zero_def val_def)

lemma fl_minus_1: "fl (- 1) = Fl (- 1)"
  by (rule fl_at [where k = 0 and e = "- 52"])
    (simp_all add: pow2_def round_half_even_def Let_def)

lemma fl_minus_rad2deg: "fl (- b64_rad2deg) = Fl (- b64_rad2deg)"
  by (rule fl_at [where k = 5 and e = "- 47"])
    (simp_all add: pow2_def b64_rad2deg_def round_half_even_def Let_def)

lemma b64_sub_zero: "b64_sub (Fl 0) (Fl 0) = Fl 0" "b64_sub (Fl 1) (Fl 0) = Fl 1"
  using fl_1 by (simp_all add: b64_sub_def b64_neg_def b64_add_def is_inf_def val_def)

lemma py_pow2_one: "py_pow2 L (Fl 1) = Inr (Fl 1)"
  by (simp add: py_pow2_def is_inf_def is_zero_def val_def)

lemma fl_2_minus_60: "fl (1 / 2 ^ 60) = Fl (1 / 2 ^ 60)"
  by (rule fl_at [where k = "- 60" and e = "- 112"])
    (simp_all add: pow2_def round_half_even_def Let_def)

lemma fl_2_minus_30: "fl (1 / 2 ^ 30) = Fl (1 / 2 ^ 30)"
  by (rule fl_at [where k = "- 30" and e = "- 82"])
    (simp_all add: pow2_def round_half_even_def Let_def)

lemma fl_degrees_half_pi: "fl (b64_pi / 2 * b64_rad2deg) = Fl 90"
  by (rule fl_at [where k = 6 and e = "- 46"])
    (simp_all add: pow2_def b64_pi_def b64_rad2deg_def round_half_even_def Let_def)

lemma fl_degrees_pi: "fl (b64_pi * b64_rad2deg) = Fl 180"
  by (rule fl_at [where k = 7 and e = "- 45"])
    (simp_all add: pow2_def b64_pi_def b64_rad2deg_def round_half_even_def Let_def)

lemma py_pow2_zero: "py_pow2 L (Fl 0) = Inr (Fl 0)" "py_pow2 L MinusZero = Inr (Fl 0)"
  by (simp_all add: py_pow2_def is_inf_def is_zero_def)

lemma np_degrees_zero: "np_degrees (Fl 0) = Fl 0"
  by (simp add: np_degrees_def b64_mul_def is_inf_def val_def sign_neg_def signed_zero_def
      b64_rad2deg_def)

lemma b64_mod_360_small: "0 \<le> x \<Longrightarrow> x < 360 \<Longrightarrow> b64_mod_360 (Fl x) = Fl x"
proof -
  assume x: "0 \<le> x" "x < 360"
  then have "\<lfloor>x / 360\<rfloor> = 0" by (simp add: floor_eq_iff)
  then show ?thesis using x by (simp add: b64_mod_360_def is_finite_def val_def trunc_def Let_def)
qed

lemma velocity_to_heading_speed_b64_zero:
  "velocity_to_heading_speed_b64 L (Fl 0, Fl 0) = Inr (Fl 0, Fl 0)"
proof -
  have "b64_add (Fl 0) (Fl 0) = Fl 0" by (simp add: b64_add_def is_inf_def val_def)
  moreover have "np_sqrt (Fl 0) = Fl 0" by (simp add: np_sqrt_def)
  moreover have "np_arctan2 L (Fl 0) (Fl 0) = Fl 0"
    by (simp add: np_arctan2_def is_zero_def sign_neg_def signed_zero_def)
  moreover have "b64_mod_360 (Fl 0) = Fl 0" by (simp add: b64_mod_360_small)
  ultimately show ?thesis
    by (simp add: velocity_to_heading_speed_b64_def py_pow2_zero np_degrees_zero
        normalize_angle_360_b64_def Let_def)
qed

subsection \<open>Errors and signs\<close>

lemma is_zero_below_guard: "is_zero r \<Longrightarrow> b64_lt r (Fl b64_1e_minus_6)"
  by (cases r) (simp_all add: is_zero_def b64_lt_def val_def b64_1e_minus_6_def)

lemma py_pow2_error: "py_pow2 L a = Inl e \<Longrightarrow> e = OverflowError"
  by (simp add: py_pow2_def split: if_splits)

lemma py_truediv_nonzero: "\<not> is_zero b \<Longrightarrow> py_truediv a b = Inr (b64_div a b)"
  by (simp add: py_truediv_def)







lemma b64_mul_neg: "b64_mul (b64_neg s) y = b64_neg (b64_mul s y)"
proof (cases "s = NaN \<or> y = NaN")
  case True
  then show ?thesis by (auto simp: b64_mul_def b64_neg_def)
next
  case False
  then have n: "s \<noteq> NaN" "y \<noteq> NaN" by simp_all
  have sg: "sign_neg (b64_neg s) = (\<not> sign_neg s)"
    using n(1) by (cases s) (auto simp: sign_neg_def b64_neg_def)
  have inf: "is_inf (b64_neg s) = is_inf s"
    by (cases s) (simp_all add: is_inf_def b64_neg_def)
  have z: "is_zero (b64_neg s) = is_zero s"
    by (cases s) (simp_all add: is_zero_def b64_neg_def)
  have v: "val (b64_neg s) = - val s"
    by (cases s) (simp_all add: val_def b64_neg_def)
  have nn: "b64_neg s \<noteq> NaN" using n(1) by (cases s) (simp_all add: b64_neg_def)
  have si: "signed_inf ((\<not> p) \<noteq> q) = b64_neg (signed_inf (p \<noteq> q))" for p q
    by (cases p; cases q) (simp_all add: signed_inf_def b64_neg_def)
  have sz: "signed_zero ((\<not> p) \<noteq> q) = b64_neg (signed_zero (p \<noteq> q))" for p q
    by (cases p; cases q) (simp_all add: signed_zero_def b64_neg_def)
  have nan: "b64_neg NaN = NaN" by (simp add: b64_neg_def)
  show ?thesis
  proof (cases "is_inf s \<or> is_inf y")
    case True
    have "b64_mul (b64_neg s) y
        = (if is_zero s \<or> is_zero y then NaN else signed_inf ((\<not> sign_neg s) \<noteq> sign_neg y))"
      using n nn True by (simp add: b64_mul_def inf z sg)
    also have "\<dots> = b64_neg (if is_zero s \<or> is_zero y then NaN
        else signed_inf (sign_neg s \<noteq> sign_neg y))"
      by (simp only: si nan if_distrib [of b64_neg])
    also have "\<dots> = b64_neg (b64_mul s y)"
      using n True by (simp add: b64_mul_def)
    finally show ?thesis .
  next
    case fin: False
    show ?thesis
    proof (cases "val s * val y = 0")
      case True
      have "b64_mul (b64_neg s) y = signed_zero ((\<not> sign_neg s) \<noteq> sign_neg y)"
        using n nn fin True by (simp add: b64_mul_def inf v sg)
      also have "\<dots> = b64_neg (signed_zero (sign_neg s \<noteq> sign_neg y))" by (rule sz)
      also have "\<dots> = b64_neg (b64_mul s y)"
        using n fin True by (simp add: b64_mul_def)
      finally show ?thesis .
    next
      case False
      have "b64_mul (b64_neg s) y = fl (- (val s * val y))"
        using n nn fin False by (simp add: b64_mul_def inf v)
      also have "\<dots> = b64_neg (fl (val s * val y))" using False by (rule fl_minus)
      also have "\<dots> = b64_neg (b64_mul s y)"
        using n fin False by (simp add: b64_mul_def)
      finally show ?thesis .
    qed
  qed
qed

lemma py_truediv_error: "py_truediv a b = Inl e \<Longrightarrow> e = ZeroDivisionError"
  by (simp add: py_truediv_def split: if_splits)

section \<open>Properties\<close>

text \<open>
  C10. The distance is symmetric: \<open>calculate_distance p1 p2 = calculate_distance p2 p1\<close>
  for all positions.
\<close>

theorem calculate_distance_symmetric:
  "calculate_distance p1 p2 = calculate_distance p2 p1"
proof -
  have "(fst p2 - fst p1)\<^sup>2 = (fst p1 - fst p2)\<^sup>2" by (rule power2_commute)
  moreover have "(snd p2 - snd p1)\<^sup>2 = (snd p1 - snd p2)\<^sup>2" by (rule power2_commute)
  ultimately show ?thesis by (simp add: calculate_distance_def)
qed

text \<open>
  C8. The aspect angle is the relative bearing with the two ships exchanged:
  \<open>calculate_aspect_angle h p q = calculate_relative_bearing q h p\<close> for every heading
  \<open>h\<close> and all positions \<open>p\<close>, \<open>q\<close>.
\<close>

theorem aspect_angle_is_swapped_relative_bearing:
  "calculate_aspect_angle h p q = calculate_relative_bearing q h p"
  by (simp add: calculate_aspect_angle_def calculate_relative_bearing_def)


text \<open>
  C1. With \<open>r = tsPos - osPos\<close> and \<open>v = tsVel - osVel\<close>: when \<open>|v|\<^sup>2 < \<epsilon>\<close>, \<open>cpaTcpa\<close>
  returns \<open>tcpa = +\<infinity>\<close> and \<open>dcpa = |r|\<close>; otherwise it returns
  \<open>tcpa = -(r \<sqdot> v) / |v|\<^sup>2\<close> and \<open>dcpa = |r + v * tcpa|\<close>. \<open>dcpa\<close> is never negative.
  Two ships on the same course at the same speed, 500 m apart, get \<open>dcpa = 500\<close> and
  \<open>tcpa = +\<infinity>\<close> (test_parallel_same_speed); \<open>tcpa\<close> is not clamped: two ships moving
  apart get the negative \<open>tcpa = -50\<close> (test_past_cpa).
\<close>

theorem cpaTcpa_branches:
  fixes osPos osVel tsPos tsVel :: vec2 and eps :: real
  defines "rx \<equiv> fst tsPos - fst osPos" and "ry \<equiv> snd tsPos - snd osPos"
      and "vx \<equiv> fst tsVel - fst osVel" and "vy \<equiv> snd tsVel - snd osVel"
  shows "(vx\<^sup>2 + vy\<^sup>2 < eps \<longrightarrow>
            cpaTcpa eps osPos osVel tsPos tsVel = (sqrt (rx\<^sup>2 + ry\<^sup>2), PosInf))
       \<and> (\<not> vx\<^sup>2 + vy\<^sup>2 < eps \<longrightarrow>
            (\<exists>tcpa. tcpa = - (rx * vx + ry * vy) / (vx\<^sup>2 + vy\<^sup>2)
               \<and> cpaTcpa eps osPos osVel tsPos tsVel
                   = (sqrt ((rx + vx * tcpa)\<^sup>2 + (ry + vy * tcpa)\<^sup>2), Finite tcpa)))
       \<and> 0 \<le> fst (cpaTcpa eps osPos osVel tsPos tsVel)
       \<and> (0 < eps \<longrightarrow>
            cpaTcpa eps (0, 0) (heading_to_velocity 0 10) (500, 0) (heading_to_velocity 0 10)
            = (500, PosInf))
       \<and> (eps \<le> 400 \<longrightarrow>
            cpaTcpa eps (0, 1000) (heading_to_velocity 0 10) (0, 0) (heading_to_velocity 180 10)
            = (0, Finite (- 50)))"
proof -
  have a: "cpaTcpa eps osPos osVel tsPos tsVel = (sqrt (rx\<^sup>2 + ry\<^sup>2), PosInf)"
    if "vx\<^sup>2 + vy\<^sup>2 < eps"
    using that by (simp add: cpaTcpa_def Let_def rx_def ry_def vx_def vy_def)
  have b: "cpaTcpa eps osPos osVel tsPos tsVel
      = (sqrt ((rx + vx * (- (rx * vx + ry * vy) / (vx\<^sup>2 + vy\<^sup>2)))\<^sup>2
             + (ry + vy * (- (rx * vx + ry * vy) / (vx\<^sup>2 + vy\<^sup>2)))\<^sup>2),
         Finite (- (rx * vx + ry * vy) / (vx\<^sup>2 + vy\<^sup>2)))"
    if "\<not> vx\<^sup>2 + vy\<^sup>2 < eps"
    using that by (simp add: cpaTcpa_def Let_def rx_def ry_def vx_def vy_def)
  have c: "0 \<le> fst (cpaTcpa eps osPos osVel tsPos tsVel)"
    by (simp add: cpaTcpa_def Let_def)
  have h0: "heading_to_velocity 0 10 = (0, 10)"
    by (simp add: heading_to_velocity_def radians_def)
  have h180: "heading_to_velocity 180 10 = (0, - 10)"
    by (simp add: heading_to_velocity_def radians_def)
  have d: "cpaTcpa eps (0, 0) (heading_to_velocity 0 10) (500, 0) (heading_to_velocity 0 10)
            = (500, PosInf)" if "0 < eps"
    using that by (simp add: h0 cpaTcpa_def)
  have e: "cpaTcpa eps (0, 1000) (heading_to_velocity 0 10) (0, 0) (heading_to_velocity 180 10)
            = (0, Finite (- 50))" if "eps \<le> 400"
    using that by (simp add: h0 h180 cpaTcpa_def)
  from a b c d e show ?thesis by blast
qed

theorem cpaTcpa_branches_witness:
  "((0 - 0)\<^sup>2 + (10 - 10)\<^sup>2 < (1 / 10 ^ 6 :: real)
     \<and> cpaTcpa (1 / 10 ^ 6) (0, 0) (0, 10) (500, 0) (0, 10) = (sqrt ((500 - 0)\<^sup>2 + (0 - 0)\<^sup>2), PosInf))
   \<and> (\<not> (0 - 0)\<^sup>2 + (- 10 - 10)\<^sup>2 < (1 / 10 ^ 6 :: real)
     \<and> cpaTcpa (1 / 10 ^ 6) (0, 0) (0, 10) (0, 2000) (0, - 10) = (0, Finite 100))
   \<and> (0 :: real) < 1 / 10 ^ 6
   \<and> cpaTcpa (1 / 10 ^ 6) (0, 0) (heading_to_velocity 0 10) (500, 0) (heading_to_velocity 0 10)
        = (500, PosInf)
   \<and> (1 / 10 ^ 6 :: real) \<le> 400
   \<and> cpaTcpa (1 / 10 ^ 6) (0, 1000) (heading_to_velocity 0 10) (0, 0) (heading_to_velocity 180 10)
        = (0, Finite (- 50))"
  using cpaTcpa_branches [where eps = "1 / 10 ^ 6" and osPos = "(0, 0)" and osVel = "(0, 10)"
        and tsPos = "(500, 0)" and tsVel = "(0, 10)"]
    cpaTcpa_branches [where eps = "1 / 10 ^ 6" and osPos = "(0, 0)" and osVel = "(0, 10)"
        and tsPos = "(0, 2000)" and tsVel = "(0, - 10)"]
  by simp

text \<open>
  C2. The claim puts \<open>normalize_angle_360\<close> in \<open>[0, 360)\<close> and \<open>normalize_angle\<close> in
  \<open>[-180, 180)\<close> and makes both idempotent; the docstring of \<open>normalize_angle_360\<close> says
  \<open>[0, 360)\<close> too. The code breaks it: for the float \<open>-1e-20\<close> the remainder of \<open>fmod\<close> is
  \<open>-1e-20\<close>, and adding 360 rounds to \<open>360.0\<close>; applied again, the result is \<open>0.0\<close>. In the
  same way \<open>normalize_angle(-180.00000000000003)\<close> is \<open>180.0\<close>, and applied again
  \<open>-180.0\<close>.
\<close>

theorem normalize_angle_b64_end_points:
  "normalize_angle_360_b64 (Fl (- b64_1e_minus_20)) = Fl 360
   \<and> normalize_angle_360_b64 (normalize_angle_360_b64 (Fl (- b64_1e_minus_20))) = Fl 0
   \<and> normalize_angle_b64 (Fl (- 180 - 1 / 2 ^ 45)) = Fl 180
   \<and> normalize_angle_b64 (normalize_angle_b64 (Fl (- 180 - 1 / 2 ^ 45))) = Fl (- 180)"
proof -
  have a: "normalize_angle_360_b64 (Fl (- b64_1e_minus_20)) = Fl 360"
    by (simp only: normalize_angle_360_b64_def mod_360_minus_1e_minus_20)
  have b: "normalize_angle_360_b64 (Fl 360) = Fl 0"
    by (simp add: normalize_angle_360_b64_def b64_mod_360_def is_finite_def val_def trunc_def)
  have c: "normalize_angle_b64 (Fl (- 180 - 1 / 2 ^ 45)) = Fl 180"
  proof -
    have s: "b64_add (Fl (- 180 - 1 / 2 ^ 45)) (Fl 180) = Fl (- (1 / 2 ^ 45))"
      using fl_minus_half_ulp by (simp add: b64_add_def is_inf_def val_def)
    have "trunc (- (1 / 2 ^ 45) / 360) = 0"
      by (simp add: trunc_def ceiling_eq_iff)
    then have m: "b64_mod_360 (Fl (- (1 / 2 ^ 45))) = Fl 360"
      using fl_360_minus_half_ulp
      by (simp add: b64_mod_360_def is_finite_def val_def Let_def)
    have r: "b64_sub (Fl 360) (Fl 180) = Fl 180"
      using fl_180 by (simp add: b64_sub_def b64_neg_def b64_add_def is_inf_def val_def)
    show ?thesis by (simp only: normalize_angle_b64_def s m r)
  qed
  have d: "normalize_angle_b64 (Fl 180) = Fl (- 180)"
  proof -
    have s: "b64_add (Fl 180) (Fl 180) = Fl 360"
      using fl_360 by (simp add: b64_add_def is_inf_def val_def)
    have m: "b64_mod_360 (Fl 360) = Fl 0"
      by (simp add: b64_mod_360_def is_finite_def val_def trunc_def)
    have r: "b64_sub (Fl 0) (Fl 180) = Fl (- 180)"
      using fl_minus_180 by (simp add: b64_sub_def b64_neg_def b64_add_def is_inf_def val_def)
    show ?thesis by (simp only: normalize_angle_b64_def s m r)
  qed
  from a b c d show ?thesis by (simp only: simp_thms)
qed




text \<open>
  C5, as stated, fails: the function is not total. With positions \<open>2 ^ 512\<close> apart,
  \<open>dx ** 2\<close> raises \<open>OverflowError\<close> before the guard is reached.
\<close>

theorem calculate_bearing_rate_b64_overflow:
  "calculate_bearing_rate_b64 correctly_rounded (Fl 0, Fl 0) (Fl 0, Fl 0) (Fl (2 ^ 512), Fl 0)
     (Fl 0, Fl 0)
     = Inl OverflowError"
proof -
  have dx: "b64_sub (Fl (2 ^ 512)) (Fl 0) = Fl (2 ^ 512)"
    using fl_2_512 by (simp add: b64_sub_def b64_neg_def b64_add_def is_inf_def val_def)
  show ?thesis
    by (simp only: calculate_bearing_rate_b64_def Let_def fst_conv snd_conv dx py_pow2_2_512 sum.case)
qed

text \<open>
  C5, amended. \<open>calculate_bearing_rate\<close> never raises \<open>ZeroDivisionError\<close>. It raises
  \<open>OverflowError\<close> exactly when \<open>dx ** 2\<close> or \<open>dy ** 2\<close> does. Otherwise, when the squared
  range is below \<open>1e-6\<close> it returns 0 without dividing, and when it is not, the squared
  range is not zero and the result is the cross product of relative position and relative
  velocity divided by the squared range, converted to degrees, all in binary64.
\<close>

theorem calculate_bearing_rate_b64_outcomes:
  fixes L :: libm and os_position os_velocity ts_position ts_velocity :: fvec2
  defines "dx \<equiv> b64_sub (fst ts_position) (fst os_position)"
      and "dy \<equiv> b64_sub (snd ts_position) (snd os_position)"
      and "dvx \<equiv> b64_sub (fst ts_velocity) (fst os_velocity)"
      and "dvy \<equiv> b64_sub (snd ts_velocity) (snd os_velocity)"
      and "result \<equiv> calculate_bearing_rate_b64 L os_position os_velocity ts_position ts_velocity"
  shows "result \<noteq> Inl ZeroDivisionError
       \<and> ((py_pow2 L dx = Inl OverflowError
            \<or> (\<exists>dx2. py_pow2 L dx = Inr dx2) \<and> py_pow2 L dy = Inl OverflowError)
           = (result = Inl OverflowError))
       \<and> (py_pow2 L dx = Inr dx2 \<and> py_pow2 L dy = Inr dy2
            \<and> b64_lt (b64_add dx2 dy2) (Fl b64_1e_minus_6)
          \<longrightarrow> result = Inr (Fl 0))
       \<and> (py_pow2 L dx = Inr dx2 \<and> py_pow2 L dy = Inr dy2
            \<and> \<not> b64_lt (b64_add dx2 dy2) (Fl b64_1e_minus_6)
          \<longrightarrow> \<not> is_zero (b64_add dx2 dy2)
              \<and> result = Inr (np_degrees (b64_div (b64_sub (b64_mul dx dvy) (b64_mul dy dvx))
                                                    (b64_add dx2 dy2))))"
proof -
  have guard: "result = Inr (Fl 0)"
    if "py_pow2 L dx = Inr a" "py_pow2 L dy = Inr b" "b64_lt (b64_add a b) (Fl b64_1e_minus_6)" for a b
    using that by (simp add: result_def calculate_bearing_rate_b64_def Let_def dx_def dy_def)
  have division: "\<not> is_zero (b64_add a b)
      \<and> result = Inr (np_degrees (b64_div (b64_sub (b64_mul dx dvy) (b64_mul dy dvx)) (b64_add a b)))"
    if "py_pow2 L dx = Inr a" "py_pow2 L dy = Inr b" "\<not> b64_lt (b64_add a b) (Fl b64_1e_minus_6)" for a b
  proof -
    have nz: "\<not> is_zero (b64_add a b)" using that(3) is_zero_below_guard by blast
    then show ?thesis
      using that
      by (simp add: result_def calculate_bearing_rate_b64_def Let_def py_truediv_nonzero
          dx_def dy_def dvx_def dvy_def)
  qed
  have overflow_x: "result = Inl e" if "py_pow2 L dx = Inl e" for e
    using that by (simp add: result_def calculate_bearing_rate_b64_def Let_def dx_def)
  have overflow_y: "result = Inl e" if "py_pow2 L dx = Inr a" "py_pow2 L dy = Inl e" for a e
    using that by (simp add: result_def calculate_bearing_rate_b64_def Let_def dx_def dy_def)
  have no_zde: "result \<noteq> Inl ZeroDivisionError"
  proof (cases "py_pow2 L dx")
    case (Inl e)
    then show ?thesis using overflow_x py_pow2_error by fastforce
  next
    case a: (Inr a)
    show ?thesis
    proof (cases "py_pow2 L dy")
      case (Inl e)
      then show ?thesis using a overflow_y py_pow2_error by fastforce
    next
      case b: (Inr b)
      show ?thesis
        using guard [OF a b] division [OF a b] by (cases "b64_lt (b64_add a b) (Fl b64_1e_minus_6)") auto
    qed
  qed
  have overflow_iff: "(py_pow2 L dx = Inl OverflowError
            \<or> (\<exists>dx2. py_pow2 L dx = Inr dx2) \<and> py_pow2 L dy = Inl OverflowError)
           = (result = Inl OverflowError)"
  proof (cases "py_pow2 L dx")
    case (Inl e)
    then show ?thesis using overflow_x py_pow2_error by fastforce
  next
    case a: (Inr a)
    show ?thesis
    proof (cases "py_pow2 L dy")
      case (Inl e)
      then show ?thesis using a overflow_y py_pow2_error by fastforce
    next
      case b: (Inr b)
      show ?thesis
        using a b guard [OF a b] division [OF a b]
        by (cases "b64_lt (b64_add a b) (Fl b64_1e_minus_6)") auto
    qed
  qed
  from no_zde overflow_iff guard division show ?thesis by blast
qed

theorem calculate_bearing_rate_b64_outcomes_witness:
  "b64_lt (Fl 0) (Fl b64_1e_minus_6)
   \<and> calculate_bearing_rate_b64 correctly_rounded (Fl 0, Fl 0) (Fl 0, Fl 0) (Fl 0, Fl 0) (Fl 0, Fl 0) = Inr (Fl 0)
   \<and> \<not> b64_lt (Fl 1) (Fl b64_1e_minus_6)
   \<and> \<not> is_zero (Fl 1)
   \<and> calculate_bearing_rate_b64 correctly_rounded (Fl 0, Fl 0) (Fl 0, Fl 0) (Fl 0, Fl 1) (Fl 1, Fl 0)
       = Inr (Fl (- b64_rad2deg))"
proof -
  have s00: "b64_add (Fl 0) (Fl 0) = Fl 0" by (simp add: b64_add_def is_inf_def val_def)
  have s01: "b64_add (Fl 0) (Fl 1) = Fl 1"
    using fl_1 by (simp add: b64_add_def is_inf_def val_def)
  have lt0: "b64_lt (Fl 0) (Fl b64_1e_minus_6)"
    by (simp add: b64_lt_def val_def b64_1e_minus_6_def)
  have lt1: "\<not> b64_lt (Fl 1) (Fl b64_1e_minus_6)"
    by (simp add: b64_lt_def val_def b64_1e_minus_6_def)
  have cross: "b64_sub (b64_mul (Fl 0) (Fl 0)) (b64_mul (Fl 1) (Fl 1)) = Fl (- 1)"
    using fl_1 fl_minus_1
    by (simp add: b64_mul_def b64_sub_def b64_neg_def b64_add_def is_inf_def val_def
        sign_neg_def signed_zero_def)
  have dv: "b64_div (Fl (- 1)) (Fl 1) = Fl (- 1)"
    using fl_minus_1 by (simp add: b64_div_def is_inf_def is_zero_def val_def)
  have dg: "np_degrees (Fl (- 1)) = Fl (- b64_rad2deg)"
    using fl_minus_rad2deg
    by (simp add: np_degrees_def b64_mul_def is_inf_def val_def b64_rad2deg_def)
  have a: "calculate_bearing_rate_b64 correctly_rounded (Fl 0, Fl 0) (Fl 0, Fl 0) (Fl 0, Fl 0) (Fl 0, Fl 0)
      = Inr (Fl 0)"
    using calculate_bearing_rate_b64_outcomes
      [where L = correctly_rounded and os_position = "(Fl 0, Fl 0)" and os_velocity = "(Fl 0, Fl 0)"
        and ts_position = "(Fl 0, Fl 0)" and ts_velocity = "(Fl 0, Fl 0)"
        and ?dx2.0 = "Fl 0" and ?dy2.0 = "Fl 0"]
    by (simp add: b64_sub_zero py_pow2_zero s00 lt0)
  have b: "\<not> is_zero (Fl 1)
      \<and> calculate_bearing_rate_b64 correctly_rounded (Fl 0, Fl 0) (Fl 0, Fl 0) (Fl 0, Fl 1) (Fl 1, Fl 0)
          = Inr (Fl (- b64_rad2deg))"
    using calculate_bearing_rate_b64_outcomes
      [where L = correctly_rounded and os_position = "(Fl 0, Fl 0)" and os_velocity = "(Fl 0, Fl 0)"
        and ts_position = "(Fl 0, Fl 1)" and ts_velocity = "(Fl 1, Fl 0)"
        and ?dx2.0 = "Fl 0" and ?dy2.0 = "Fl 1"]
    by (simp add: b64_sub_zero py_pow2_zero py_pow2_one s01 lt1 cross dv dg)
  from lt0 a lt1 b show ?thesis by (simp only: simp_thms)
qed

text \<open>
  C6, as stated, fails. \<open>velocity_to_heading_speed\<close> has no threshold: the near-zero
  velocity \<open>(2 ^ - 30, 0.0)\<close> gets the heading 90 and its own speed. The zero vector
  \<open>(0.0, -0.0)\<close>, which is what \<open>heading_to_velocity(180, 0)\<close> returns, gets the heading
  180. And for the heading \<open>inf\<close>, \<open>heading_to_velocity(inf, 0)\<close> is \<open>(nan, nan)\<close>.
\<close>

theorem zero_speed_b64_counterexample:
  "velocity_to_heading_speed_b64 correctly_rounded (Fl (1 / 2 ^ 30), Fl 0) = Inr (Fl 90, Fl (1 / 2 ^ 30))
   \<and> velocity_to_heading_speed_b64 correctly_rounded (Fl 0, MinusZero) = Inr (Fl 180, Fl 0)
   \<and> heading_to_velocity_b64 correctly_rounded PlusInfinity (Fl 0) = (NaN, NaN)"
proof -
  have a: "velocity_to_heading_speed_b64 correctly_rounded (Fl (1 / 2 ^ 30), Fl 0) = Inr (Fl 90, Fl (1 / 2 ^ 30))"
  proof -
    have "(1 / 2 ^ 30) * (1 / 2 ^ 30) = (1 / 2 ^ 60 :: real)" by simp
    then have "lib_pow correctly_rounded (1 / 2 ^ 30) = Fl (1 / 2 ^ 60)"
      using fl_2_minus_60 by (simp only: correctly_rounded_def libm.simps)
    then have p: "py_pow2 correctly_rounded (Fl (1 / 2 ^ 30)) = Inr (Fl (1 / 2 ^ 60))"
      by (simp add: py_pow2_def is_inf_def is_zero_def val_def)
    have s: "b64_add (Fl (1 / 2 ^ 60)) (Fl 0) = Fl (1 / 2 ^ 60)"
      using fl_2_minus_60 by (simp add: b64_add_def is_inf_def val_def)
    have sq: "sqrt (1 / 2 ^ 60) = 1 / 2 ^ 30"
      by (rule real_sqrt_unique) (simp_all add: power_divide)
    have "np_sqrt (Fl (1 / 2 ^ 60)) = fl (sqrt (1 / 2 ^ 60))" by (simp add: np_sqrt_def)
    also have "\<dots> = Fl (1 / 2 ^ 30)" by (simp only: sq fl_2_minus_30)
    finally have q: "np_sqrt (Fl (1 / 2 ^ 60)) = Fl (1 / 2 ^ 30)" .
    have t: "np_arctan2 correctly_rounded (Fl (1 / 2 ^ 30)) (Fl 0) = Fl (b64_pi / 2)"
      by (simp add: np_arctan2_def is_zero_def sign_neg_def with_sign_def)
    have "b64_pi / 2 * b64_rad2deg \<noteq> 0" by (simp add: b64_pi_def b64_rad2deg_def)
    then have d: "np_degrees (Fl (b64_pi / 2)) = Fl 90"
      using fl_degrees_half_pi by (simp add: np_degrees_def b64_mul_def is_inf_def val_def)
    have m: "b64_mod_360 (Fl 90) = Fl 90" by (simp add: b64_mod_360_small)
    show ?thesis
      by (simp only: velocity_to_heading_speed_b64_def Let_def fst_conv snd_conv p py_pow2_zero
          sum.case s q t d normalize_angle_360_b64_def m)
  qed
  have b: "velocity_to_heading_speed_b64 correctly_rounded (Fl 0, MinusZero) = Inr (Fl 180, Fl 0)"
  proof -
    have s: "b64_add (Fl 0) (Fl 0) = Fl 0" by (simp add: b64_add_def is_inf_def val_def)
    have q: "np_sqrt (Fl 0) = Fl 0" by (simp add: np_sqrt_def)
    have t: "np_arctan2 correctly_rounded (Fl 0) MinusZero = Fl b64_pi"
      by (simp add: np_arctan2_def is_zero_def sign_neg_def with_sign_def)
    have "b64_pi * b64_rad2deg \<noteq> 0" by (simp add: b64_pi_def b64_rad2deg_def)
    then have d: "np_degrees (Fl b64_pi) = Fl 180"
      using fl_degrees_pi by (simp add: np_degrees_def b64_mul_def is_inf_def val_def)
    have m: "b64_mod_360 (Fl 180) = Fl 180" by (simp add: b64_mod_360_small)
    show ?thesis
      by (simp only: velocity_to_heading_speed_b64_def Let_def fst_conv snd_conv py_pow2_zero
          sum.case s q t d normalize_angle_360_b64_def m)
  qed
  have c: "heading_to_velocity_b64 correctly_rounded PlusInfinity (Fl 0) = (NaN, NaN)"
    by (simp add: heading_to_velocity_b64_def np_radians_def b64_mul_def is_inf_def is_zero_def
        sign_neg_def signed_inf_def np_sin_def np_cos_def b64_deg2rad_def)
  from a b c show ?thesis by (simp only: simp_thms)
qed

text \<open>
  C6, amended. For every finite heading \<open>h\<close>, both components of
  \<open>heading_to_velocity(h, 0.0)\<close> are zeros (\<open>0.0\<close> or \<open>-0.0\<close>), on a platform whose \<open>sin\<close> and
  \<open>cos\<close> return finite values; and \<open>velocity_to_heading_speed((0.0, 0.0))\<close> returns the
  heading 0 and the speed 0, without raising.
\<close>

theorem zero_speed_b64:
  "(b64_in_range h \<and> (\<forall>x. is_finite (lib_sin L x)) \<and> (\<forall>x. is_finite (lib_cos L x)) \<longrightarrow>
      is_zero (fst (heading_to_velocity_b64 L h (Fl 0)))
      \<and> is_zero (snd (heading_to_velocity_b64 L h (Fl 0))))
   \<and> velocity_to_heading_speed_b64 L (Fl 0, Fl 0) = Inr (Fl 0, Fl 0)"
proof -
  have "is_zero (fst (heading_to_velocity_b64 L h (Fl 0)))
      \<and> is_zero (snd (heading_to_velocity_b64 L h (Fl 0)))"
    if "b64_in_range h" and s: "\<forall>x. is_finite (lib_sin L x)" and c: "\<forall>x. is_finite (lib_cos L x)"
  proof -
    have r: "is_finite (np_radians h)" using that(1) by (rule np_radians_finite)
    have "is_zero (b64_mul (Fl 0) (np_sin L (np_radians h)))"
      using s r by (intro b64_mul_zero_finite np_sin_finite)
    moreover have "is_zero (b64_mul (Fl 0) (np_cos L (np_radians h)))"
      using c r by (intro b64_mul_zero_finite np_cos_finite)
    ultimately show ?thesis by (simp add: heading_to_velocity_b64_def Let_def)
  qed
  then show ?thesis using velocity_to_heading_speed_b64_zero by blast
qed

theorem zero_speed_b64_witness:
  "b64_in_range (Fl 180)
   \<and> (\<forall>x. is_finite (lib_sin correctly_rounded x))
   \<and> (\<forall>x. is_finite (lib_cos correctly_rounded x))
   \<and> is_zero (fst (heading_to_velocity_b64 correctly_rounded (Fl 180) (Fl 0)))
   \<and> is_zero (snd (heading_to_velocity_b64 correctly_rounded (Fl 180) (Fl 0)))
   \<and> velocity_to_heading_speed_b64 correctly_rounded (Fl 0, Fl 0) = Inr (Fl 0, Fl 0)"
proof -
  have "b64_in_range (Fl 180)" by (simp add: b64_in_range_def is_finite_def val_def pow2_def)
  then show ?thesis
    using zero_speed_b64 [of "Fl 180" correctly_rounded]
      lib_sin_correctly_rounded_finite lib_cos_correctly_rounded_finite
    by blast
qed

text \<open>
  C7, as stated, fails: nothing is validated. \<open>heading_to_velocity(0, -1)\<close> returns
  \<open>(-0.0, -1.0)\<close>, a NaN speed returns \<open>(nan, nan)\<close>, and the relative bearing between two
  positions with the coordinate \<open>inf\<close> is \<open>nan\<close>.
\<close>

theorem invalid_input_b64_counterexample:
  "heading_to_velocity_b64 correctly_rounded (Fl 0) (Fl (- 1)) = (MinusZero, Fl (- 1))
   \<and> heading_to_velocity_b64 correctly_rounded (Fl 0) NaN = (NaN, NaN)
   \<and> calculate_relative_bearing_b64 correctly_rounded (PlusInfinity, Fl 0) (Fl 0) (PlusInfinity, Fl 0) = NaN"
proof -
  have r: "np_radians (Fl 0) = Fl 0"
    by (simp add: np_radians_def b64_mul_def is_inf_def val_def sign_neg_def signed_zero_def
        b64_deg2rad_def)
  have "fl (- 1) = Fl (- 1)"
    by (rule fl_at [where k = 0 and e = "- 52"])
      (simp_all add: pow2_def round_half_even_def Let_def)
  then have a: "heading_to_velocity_b64 correctly_rounded (Fl 0) (Fl (- 1)) = (MinusZero, Fl (- 1))"
    by (simp add: heading_to_velocity_b64_def r np_sin_def np_cos_def b64_mul_def is_inf_def
        val_def sign_neg_def signed_zero_def)
  have b: "heading_to_velocity_b64 correctly_rounded (Fl 0) NaN = (NaN, NaN)"
    by (simp add: heading_to_velocity_b64_def b64_mul_def)
  have c: "calculate_relative_bearing_b64 correctly_rounded (PlusInfinity, Fl 0) (Fl 0) (PlusInfinity, Fl 0) = NaN"
    by (simp add: calculate_relative_bearing_b64_def b64_sub_def b64_neg_def b64_add_def
        np_arctan2_def np_degrees_def b64_mul_def normalize_angle_360_b64_def b64_mod_360_def
        is_finite_def)
  from a b c show ?thesis by (simp only: simp_thms)
qed

text \<open>
  C7, amended. No call raises \<open>InvalidInput\<close>, and invalid input is not rejected.
  Negating the speed negates both components of \<open>heading_to_velocity\<close>. A NaN speed or
  heading gives \<open>(nan, nan)\<close>; a NaN coordinate or heading gives the relative bearing
  \<open>nan\<close>. The functions that can raise, \<open>calculate_distance\<close>, \<open>velocity_to_heading_speed\<close>
  and \<open>calculate_bearing_rate\<close>, never raise \<open>InvalidInput\<close>.
\<close>

theorem no_input_validation_b64:
  "heading_to_velocity_b64 L h (b64_neg s)
     = (b64_neg (fst (heading_to_velocity_b64 L h s)), b64_neg (snd (heading_to_velocity_b64 L h s)))
   \<and> heading_to_velocity_b64 L h NaN = (NaN, NaN)
   \<and> heading_to_velocity_b64 L NaN s = (NaN, NaN)
   \<and> calculate_relative_bearing_b64 L (NaN, y1) h (x2, y2) = NaN
   \<and> calculate_relative_bearing_b64 L (x1, NaN) h (x2, y2) = NaN
   \<and> calculate_relative_bearing_b64 L (x1, y1) h (NaN, y2) = NaN
   \<and> calculate_relative_bearing_b64 L (x1, y1) h (x2, NaN) = NaN
   \<and> calculate_relative_bearing_b64 L (x1, y1) NaN (x2, y2) = NaN
   \<and> calculate_distance_b64 L p q \<noteq> Inl InvalidInput
   \<and> velocity_to_heading_speed_b64 L v \<noteq> Inl InvalidInput
   \<and> calculate_bearing_rate_b64 L p vp q vq \<noteq> Inl InvalidInput"
proof -
  have a: "heading_to_velocity_b64 L h (b64_neg s)
     = (b64_neg (fst (heading_to_velocity_b64 L h s)), b64_neg (snd (heading_to_velocity_b64 L h s)))"
    by (simp add: heading_to_velocity_b64_def Let_def b64_mul_neg)
  have b: "heading_to_velocity_b64 L h NaN = (NaN, NaN)"
    by (simp add: heading_to_velocity_b64_def b64_mul_def)
  have c: "heading_to_velocity_b64 L NaN s = (NaN, NaN)"
    by (simp add: heading_to_velocity_b64_def np_radians_def np_sin_def np_cos_def b64_mul_def)
  have sub_nan: "b64_sub NaN t = NaN" "b64_sub t NaN = NaN" for t
    by (simp_all add: b64_sub_def b64_add_def b64_neg_def)
  have at: "np_arctan2 L NaN t = NaN" "np_arctan2 L t NaN = NaN" for t
    by (simp_all add: np_arctan2_def)
  have dg: "np_degrees NaN = NaN" by (simp add: np_degrees_def b64_mul_def)
  have md: "b64_mod_360 NaN = NaN" by (simp add: b64_mod_360_def is_finite_def)
  have d: "calculate_relative_bearing_b64 L (NaN, y1) h (x2, y2) = NaN"
    "calculate_relative_bearing_b64 L (x1, NaN) h (x2, y2) = NaN"
    "calculate_relative_bearing_b64 L (x1, y1) h (NaN, y2) = NaN"
    "calculate_relative_bearing_b64 L (x1, y1) h (x2, NaN) = NaN"
    "calculate_relative_bearing_b64 L (x1, y1) NaN (x2, y2) = NaN"
    by (simp_all add: calculate_relative_bearing_b64_def Let_def sub_nan at dg md
        normalize_angle_360_b64_def)
  have e: "calculate_distance_b64 L p q \<noteq> Inl InvalidInput"
    by (auto simp: calculate_distance_b64_def Let_def split: sum.splits dest: py_pow2_error)
  have f: "velocity_to_heading_speed_b64 L v \<noteq> Inl InvalidInput"
    by (auto simp: velocity_to_heading_speed_b64_def Let_def split: sum.splits dest: py_pow2_error)
  have g: "calculate_bearing_rate_b64 L p vp q vq \<noteq> Inl InvalidInput"
    by (auto simp: calculate_bearing_rate_b64_def Let_def split: sum.splits if_splits
        dest: py_pow2_error py_truediv_error)
  from a b c d e f g show ?thesis by (simp only: simp_thms)
qed

end
